theory Spec2Isabelle
  imports Complex_Main
begin

section \<open>The user selection pane of react-flow\<close>

text \<open>
  This theory embeds \<^verbatim>\<open>src/components/UserSelection/index.tsx\<close>: the component that
  draws a selection rectangle while the pointer is dragged, and its four pointer
  handlers \<^verbatim>\<open>onMouseDown\<close>, \<^verbatim>\<open>onMouseMove\<close>, \<^verbatim>\<open>onMouseUp\<close> and \<^verbatim>\<open>onMouseLeave\<close>.

  JavaScript numbers are read as real numbers: the handlers only subtract, compare and
  take absolute values of pointer coordinates, and the counters hold array lengths,
  which are natural numbers. The component's hooks (two \<^verbatim>\<open>useRef\<close> counters, the
  \<^verbatim>\<open>useRef\<close> container bounds and the \<^verbatim>\<open>useState\<close> rectangle) form one record that
  every handler takes and returns; the zustand store is a second record; the calls
  of the store's \<^verbatim>\<open>onNodesChange\<close> and \<^verbatim>\<open>onEdgesChange\<close> and of the \<^verbatim>\<open>onClick\<close> prop
  are returned as a list of effects, in the order the handler makes them. One handler
  call is one transition: the component has rendered again before the next event.
\<close>

subsection \<open>Geometry\<close>

record XYPosition =
  x :: real
  y :: real

record Rect = XYPosition +
  width :: real
  height :: real

text \<open>\<^verbatim>\<open>type SelectionRect = Rect & { startX; startY; draw }\<close>\<close>

record SelectionRect = Rect +
  startX :: real
  startY :: real
  draw :: bool

text \<open>
  Of the container's \<^verbatim>\<open>DOMRect\<close> the component reads \<^verbatim>\<open>left\<close> and \<^verbatim>\<open>top\<close> only
  (\<open>top\<close> is a constant of HOL, so both fields carry a prefix).
\<close>

record DOMRect =
  bounds_left :: real
  bounds_top :: real

text \<open>
  Of a mouse event the handlers read \<^verbatim>\<open>clientX\<close>, \<^verbatim>\<open>clientY\<close> and, in \<^verbatim>\<open>onMouseDown\<close>,
  \<^verbatim>\<open>(event.target as Element).closest('.react-flow')\<close> and the bounding rectangle of
  the element found. \<open>closest_react_flow\<close> is that rectangle, and \<open>None\<close> when no
  ancestor of the target matches (\<^verbatim>\<open>closest\<close> returns \<^verbatim>\<open>null\<close>).
\<close>

record MouseEvent =
  clientX :: real
  clientY :: real
  closest_react_flow :: "DOMRect option"

definition getMousePosition :: "MouseEvent \<Rightarrow> DOMRect \<Rightarrow> XYPosition" where
  "getMousePosition event containerBounds =
     \<lparr> x = clientX event - bounds_left containerBounds,
       y = clientY event - bounds_top containerBounds \<rparr>"

definition initialRect :: SelectionRect where
  "initialRect =
     \<lparr> x = 0, y = 0, width = 0, height = 0, startX = 0, startY = 0, draw = False \<rparr>"

subsection \<open>Nodes, edges and the store\<close>

text \<open>
  Modelled from the spec: the types \<^verbatim>\<open>Node\<close>, \<^verbatim>\<open>Edge\<close> and \<^verbatim>\<open>Transform\<close> of
  \<^verbatim>\<open>src/types\<close>, which is not among the sources. An element has an id, a position in
  canvas space, dimensions that may be unmeasured, and a selected flag; a connection
  has an id, the ids of its source and target elements, and a selected flag; the
  transform is a translation and a zoom factor. The field \<^verbatim>\<open>id\<close> is \<open>item_id\<close> here
  (\<open>id\<close> is the identity function of HOL).
\<close>

record item =
  item_id :: string
  selected :: bool

record node = item +
  position :: XYPosition
  dimensions :: "(real \<times> real) option"

record edge = item +
  source :: string
  target :: string

record Transform =
  translateX :: real
  translateY :: real
  zoom :: real

text \<open>A selection change \<^verbatim>\<open>{id, selected}\<close>.\<close>

type_synonym SelectionChange = "string \<times> bool"

text \<open>
  The part of \<^verbatim>\<open>ReactFlowState\<close> the component touches. \<open>nodeInternals\<close> is a
  JavaScript \<^verbatim>\<open>Map\<close>, kept as the list of its entries in insertion order.
  \<open>onNodesChange\<close> and \<open>onEdgesChange\<close> say whether the optional handler is defined
  (the component calls them as \<^verbatim>\<open>onNodesChange?.(changes)\<close>).
\<close>

record ReactFlowState =
  userSelectionActive :: bool
  nodesSelectionActive :: bool
  elementsSelectable :: bool
  nodeInternals :: "(string \<times> node) list"
  edges :: "edge list"
  transform :: Transform
  onNodesChange :: bool
  onEdgesChange :: bool

subsection \<open>Props, hooks and effects\<close>

text \<open>\<^verbatim>\<open>selectionKeyCode: KeyCode | null | boolean\<close>\<close>

datatype SelectionKeyCode = KeyCode string | Null | Boolean bool

record UserSelectionProps =
  selectionKeyPressed :: bool
  selectionKeyCode :: SelectionKeyCode
  onClick :: bool

text \<open>The hooks of the component; \<open>containerBounds\<close> is \<^verbatim>\<open>undefined\<close> at first.\<close>

record UserSelection =
  prevSelectedNodesCount :: nat
  prevSelectedEdgesCount :: nat
  containerBounds :: "DOMRect option"
  userSelectionRect :: SelectionRect

definition initialUserSelection :: UserSelection where
  "initialUserSelection =
     \<lparr> prevSelectedNodesCount = 0, prevSelectedEdgesCount = 0,
       containerBounds = None, userSelectionRect = initialRect \<rparr>"

datatype effect =
    Click MouseEvent
  | NodesChange "SelectionChange list"
  | EdgesChange "SelectionChange list"

fun isChangeBatch :: "effect \<Rightarrow> bool" where
  "isChangeBatch (Click _) = False"
| "isChangeBatch (NodesChange _) = True"
| "isChangeBatch (EdgesChange _) = True"

fun isNodesChange :: "effect \<Rightarrow> bool" where
  "isNodesChange (NodesChange _) = True"
| "isNodesChange _ = False"

fun isEdgesChange :: "effect \<Rightarrow> bool" where
  "isEdgesChange (EdgesChange _) = True"
| "isEdgesChange _ = False"

datatype error = TypeError

text \<open>
  The functions \<^verbatim>\<open>getNodesInside\<close>, \<^verbatim>\<open>getConnectedEdges\<close> (\<^verbatim>\<open>src/utils/graph\<close>) and
  \<^verbatim>\<open>getSelectionChanges\<close> (\<^verbatim>\<open>src/utils/changes\<close>) are imported by the component and
  are not among the sources: the handlers take them as parameters. The one generic
  \<^verbatim>\<open>getSelectionChanges\<close> is used at two types (its result is cast to \<^verbatim>\<open>NodeChange[]\<close>
  and to \<^verbatim>\<open>EdgeChange[]\<close>), hence two fields.
\<close>

record utils =
  getNodesInside ::
    "(string \<times> node) list \<Rightarrow> Rect \<Rightarrow> Transform \<Rightarrow> bool \<Rightarrow> bool \<Rightarrow> node list"
  getConnectedEdges :: "node list \<Rightarrow> edge list \<Rightarrow> edge list"
  getSelectionChanges_nodes :: "node list \<Rightarrow> string list \<Rightarrow> SelectionChange list"
  getSelectionChanges_edges :: "edge list \<Rightarrow> string list \<Rightarrow> SelectionChange list"

subsection \<open>The handlers\<close>

definition resetUserSelection ::
  "UserSelection \<Rightarrow> ReactFlowState \<Rightarrow> UserSelection \<times> ReactFlowState" where
  "resetUserSelection c s =
     (c\<lparr> userSelectionRect := initialRect,
         prevSelectedNodesCount := 0,
         prevSelectedEdgesCount := 0 \<rparr>,
      s\<lparr> userSelectionActive := False \<rparr>)"

text \<open>
  \<^verbatim>\<open>onMouseDown\<close> calls \<^verbatim>\<open>onClick\<close> when it is given, then reads the bounding rectangle
  of the closest \<^verbatim>\<open>.react-flow\<close> ancestor. The non-null assertion \<^verbatim>\<open>!\<close> is erased by
  the compiler: when \<^verbatim>\<open>closest\<close> returns \<^verbatim>\<open>null\<close> the call of \<^verbatim>\<open>getBoundingClientRect\<close>
  throws a \<^verbatim>\<open>TypeError\<close>, after \<^verbatim>\<open>onClick\<close> has run and before anything is written.
  The handler is wrapped in \<^verbatim>\<open>useCallback\<close> without dependencies, so \<open>p\<close> stands for
  the props the callback has captured, those of the first render.
\<close>

definition onMouseDown ::
  "UserSelectionProps \<Rightarrow> UserSelection \<Rightarrow> ReactFlowState \<Rightarrow> MouseEvent
     \<Rightarrow> (error \<times> effect list) + (UserSelection \<times> ReactFlowState \<times> effect list)" where
  "onMouseDown p c s event =
     (let clicked = (if onClick p then [Click event] else []) in
      case closest_react_flow event of
        None \<Rightarrow> Inl (TypeError, clicked)
      | Some bounds \<Rightarrow>
          let mousePos = getMousePosition event bounds in
          Inr (c\<lparr> containerBounds := Some bounds,
                   userSelectionRect :=
                     \<lparr> x = x mousePos, y = y mousePos, width = 0, height = 0,
                       startX = x mousePos, startY = y mousePos, draw = True \<rparr> \<rparr>,
               s\<lparr> userSelectionActive := True, nodesSelectionActive := False \<rparr>,
               clicked))"

text \<open>The two early returns of \<^verbatim>\<open>onMouseMove\<close> (lines 88 to 90).\<close>

fun typeof_boolean :: "SelectionKeyCode \<Rightarrow> bool" where
  "typeof_boolean (Boolean _) = True"
| "typeof_boolean _ = False"

definition onMouseMove_returns :: "UserSelectionProps \<Rightarrow> UserSelection \<Rightarrow> bool" where
  "onMouseMove_returns p c =
     (if typeof_boolean (selectionKeyCode p) then
        \<not> draw (userSelectionRect c) \<or> containerBounds c = None
      else
        \<not> selectionKeyPressed p \<or> \<not> draw (userSelectionRect c) \<or> containerBounds c = None)"

text \<open>\<^verbatim>\<open>nextUserSelectRect\<close> (lines 92 to 102), from the rectangle and the mouse position.\<close>

definition nextUserSelectRect :: "SelectionRect \<Rightarrow> XYPosition \<Rightarrow> SelectionRect" where
  "nextUserSelectRect r mousePos =
     (let sx = startX r; sy = startY r in
      r\<lparr> x := (if x mousePos < sx then x mousePos else sx),
         y := (if y mousePos < sy then y mousePos else sy),
         width := \<bar>x mousePos - sx\<bar>,
         height := \<bar>y mousePos - sy\<bar> \<rparr>)"

text \<open>\<^verbatim>\<open>selectedNodes\<close>, \<^verbatim>\<open>selectedNodeIds\<close> and \<^verbatim>\<open>selectedEdgeIds\<close> (lines 104 to 108).\<close>

definition selectedNodes ::
  "utils \<Rightarrow> UserSelection \<Rightarrow> ReactFlowState \<Rightarrow> MouseEvent \<Rightarrow> DOMRect \<Rightarrow> node list" where
  "selectedNodes u c s event bounds =
     getNodesInside u (nodeInternals s)
       (Rect.truncate (nextUserSelectRect (userSelectionRect c) (getMousePosition event bounds)))
       (transform s) False True"

definition selectedNodeIds ::
  "utils \<Rightarrow> UserSelection \<Rightarrow> ReactFlowState \<Rightarrow> MouseEvent \<Rightarrow> DOMRect \<Rightarrow> string list" where
  "selectedNodeIds u c s event bounds = map item_id (selectedNodes u c s event bounds)"

definition selectedEdgeIds ::
  "utils \<Rightarrow> UserSelection \<Rightarrow> ReactFlowState \<Rightarrow> MouseEvent \<Rightarrow> DOMRect \<Rightarrow> string list" where
  "selectedEdgeIds u c s event bounds =
     map item_id (getConnectedEdges u (selectedNodes u c s event bounds) (edges s))"

text \<open>The block of lines 110 to 116: the counter and the changes of the nodes.\<close>

definition nodesBlock ::
  "utils \<Rightarrow> ReactFlowState \<Rightarrow> string list \<Rightarrow> UserSelection \<Rightarrow> UserSelection \<times> effect list" where
  "nodesBlock u s ids c =
     (if prevSelectedNodesCount c \<noteq> length ids then
        (let changes = getSelectionChanges_nodes u (map snd (nodeInternals s)) ids in
         (c\<lparr> prevSelectedNodesCount := length ids \<rparr>,
          if changes \<noteq> [] \<and> onNodesChange s then [NodesChange changes] else []))
      else (c, []))"

text \<open>The block of lines 118 to 124: the counter and the changes of the edges.\<close>

definition edgesBlock ::
  "utils \<Rightarrow> ReactFlowState \<Rightarrow> string list \<Rightarrow> UserSelection \<Rightarrow> UserSelection \<times> effect list" where
  "edgesBlock u s ids c =
     (if prevSelectedEdgesCount c \<noteq> length ids then
        (let changes = getSelectionChanges_edges u (edges s) ids in
         (c\<lparr> prevSelectedEdgesCount := length ids \<rparr>,
          if changes \<noteq> [] \<and> onEdgesChange s then [EdgesChange changes] else []))
      else (c, []))"

definition onMouseMove ::
  "utils \<Rightarrow> UserSelectionProps \<Rightarrow> UserSelection \<Rightarrow> ReactFlowState \<Rightarrow> MouseEvent
     \<Rightarrow> UserSelection \<times> ReactFlowState \<times> effect list" where
  "onMouseMove u p c s event =
     (if onMouseMove_returns p c then (c, s, [])
      else case containerBounds c of
        None \<Rightarrow> (c, s, [])
      | Some bounds \<Rightarrow>
          let mousePos = getMousePosition event bounds;
              next = nextUserSelectRect (userSelectionRect c) mousePos;
              (c1, nodeEffects) = nodesBlock u s (selectedNodeIds u c s event bounds) c;
              (c2, edgeEffects) = edgesBlock u s (selectedEdgeIds u c s event bounds) c1
          in (c2\<lparr> userSelectionRect := next \<rparr>, s, nodeEffects @ edgeEffects))"

definition onMouseUp ::
  "UserSelection \<Rightarrow> ReactFlowState \<Rightarrow> UserSelection \<times> ReactFlowState" where
  "onMouseUp c s =
     resetUserSelection c (s\<lparr> nodesSelectionActive := 0 < prevSelectedNodesCount c \<rparr>)"

definition onMouseLeave ::
  "UserSelection \<Rightarrow> ReactFlowState \<Rightarrow> UserSelection \<times> ReactFlowState" where
  "onMouseLeave c s =
     resetUserSelection c (s\<lparr> nodesSelectionActive := False \<rparr>)"

subsection \<open>Runs of the component\<close>

text \<open>
  What can happen to a mounted component: the four pointer events, each with the props
  of the render it arrives in, and a change of the store by its owner. A pointer-press
  that throws leaves hooks and store as they were.
\<close>

datatype event =
    MouseDown UserSelectionProps MouseEvent
  | MouseMove UserSelectionProps MouseEvent
  | MouseUp
  | MouseLeave
  | StoreUpdate ReactFlowState

fun step :: "utils \<Rightarrow> UserSelection \<times> ReactFlowState \<Rightarrow> event \<Rightarrow> UserSelection \<times> ReactFlowState" where
  "step u (c, s) (MouseDown p event) =
     (case onMouseDown p c s event of
        Inl _ \<Rightarrow> (c, s)
      | Inr (c', s', _) \<Rightarrow> (c', s'))"
| "step u (c, s) (MouseMove p event) =
     (case onMouseMove u p c s event of (c', s', _) \<Rightarrow> (c', s'))"
| "step u (c, s) MouseUp = onMouseUp c s"
| "step u (c, s) MouseLeave = onMouseLeave c s"
| "step u (c, s) (StoreUpdate s') = (c, s')"

definition run :: "utils \<Rightarrow> ReactFlowState \<Rightarrow> event list \<Rightarrow> UserSelection \<times> ReactFlowState" where
  "run u s0 events = foldl (step u) (initialUserSelection, s0) events"

text \<open>The invariant of the rectangle: sizes are not negative, the corner is not past the anchor.\<close>

definition rectInvariant :: "SelectionRect \<Rightarrow> bool" where
  "rectInvariant r = (0 \<le> width r \<and> 0 \<le> height r \<and> x r \<le> startX r \<and> y r \<le> startY r)"

subsection \<open>The helpers as the specification describes them\<close>

text \<open>
  Modelled from the spec: the two modes of \<^verbatim>\<open>elementsInside\<close>, part of the absent
  \<^verbatim>\<open>getNodesInside\<close>.
\<close>

datatype mode = Partial | FullContainment

text \<open>
  Modelled from the spec: \<^verbatim>\<open>toCanvasRect(screenRect, transform)\<close>, the inverse mapping
  from screen space to canvas space that the absent \<^verbatim>\<open>getNodesInside\<close> applies to the
  rectangle: subtract the translation, divide by the zoom.
\<close>

definition toCanvasRect :: "Rect \<Rightarrow> Transform \<Rightarrow> Rect" where
  "toCanvasRect screenRect t =
     \<lparr> x = (x screenRect - translateX t) / zoom t,
       y = (y screenRect - translateY t) / zoom t,
       width = width screenRect / zoom t,
       height = height screenRect / zoom t \<rparr>"

text \<open>
  Modelled from the spec: the test of one element in \<^verbatim>\<open>elementsInside\<close>, part of the absent
  \<^verbatim>\<open>getNodesInside\<close>. An element without measured dimensions is excluded. In partial
  mode the element's box \<open>[position, position + dimensions]\<close> and the rectangle must
  overlap on both axes (the interval-overlap test); in full-containment mode the whole
  box must lie within the rectangle.
\<close>

definition insideRect :: "Rect \<Rightarrow> mode \<Rightarrow> node \<Rightarrow> bool" where
  "insideRect canvasRect m n =
     (case dimensions n of
        None \<Rightarrow> False
      | Some (w, h) \<Rightarrow>
          (let px = x (position n); py = y (position n);
               rx = x canvasRect; ry = y canvasRect;
               rw = width canvasRect; rh = height canvasRect in
           case m of
             Partial \<Rightarrow> px < rx + rw \<and> rx < px + w \<and> py < ry + rh \<and> ry < py + h
           | FullContainment \<Rightarrow>
               rx \<le> px \<and> px + w \<le> rx + rw \<and> ry \<le> py \<and> py + h \<le> ry + rh))"

text \<open>
  Modelled from the spec: \<^verbatim>\<open>elementsInside(elements, canvasRect, mode)\<close>, the absent
  \<^verbatim>\<open>getNodesInside\<close> after the conversion of the rectangle. The spec gives the result as
  the set of the ids; the component takes \<^verbatim>\<open>.id\<close> of every member of the result
  itself, so the elements are returned, in the order of the input.
\<close>

definition elementsInside :: "node list \<Rightarrow> Rect \<Rightarrow> mode \<Rightarrow> node list" where
  "elementsInside elements canvasRect m = filter (insideRect canvasRect m) elements"

text \<open>
  Modelled from the spec: \<^verbatim>\<open>connectedConnections(connections, selectedElementIds)\<close>, the
  absent \<^verbatim>\<open>getConnectedEdges\<close>: every connection whose source or target is among the
  ids, in the order of the input.
\<close>

definition connectedConnections :: "edge list \<Rightarrow> string list \<Rightarrow> edge list" where
  "connectedConnections connections selectedElementIds =
     filter (\<lambda>e. source e \<in> set selectedElementIds \<or> target e \<in> set selectedElementIds)
       connections"

text \<open>
  Modelled from the spec: \<^verbatim>\<open>computeSelectionChanges(previousItems, newlySelectedIds)\<close>,
  the absent \<^verbatim>\<open>getSelectionChanges\<close>: one record for every item whose flag has to flip,
  in the order of the items.
\<close>

definition computeSelectionChanges ::
  "('a item_scheme) list \<Rightarrow> string list \<Rightarrow> SelectionChange list" where
  "computeSelectionChanges previousItems newlySelectedIds =
     concat (map (\<lambda>i.
       if item_id i \<in> set newlySelectedIds \<and> \<not> selected i then [(item_id i, True)]
       else if selected i \<and> item_id i \<notin> set newlySelectedIds then [(item_id i, False)]
       else []) previousItems)"

text \<open>
  Modelled from the spec: the absent helpers at the signatures of the component's calls.
  The component calls \<^verbatim>\<open>getNodesInside(nodeInternals, rect, transform, false, true)\<close>;
  which of the two modes these two literals select is fixed by the declaration of
  \<^verbatim>\<open>getNodesInside\<close>, which is not among the sources. The mode is therefore a
  parameter \<open>m\<close> of the helpers, and the two flags are not read. These helpers serve as
  concrete inputs only: every property below is stated for arbitrary helpers, and each
  concrete input is checked in both modes.
\<close>

definition spec_utils :: "mode \<Rightarrow> utils" where
  "spec_utils m =
     \<lparr> getNodesInside = (\<lambda>nodeInternals rect t _ _.
         elementsInside (map snd nodeInternals) (toCanvasRect rect t) m),
       getConnectedEdges = (\<lambda>nodes es. connectedConnections es (map item_id nodes)),
       getSelectionChanges_nodes = computeSelectionChanges,
       getSelectionChanges_edges = computeSelectionChanges \<rparr>"

subsection \<open>A drag over one element\<close>

text \<open>
  The scenario of the specification: one element \<open>a\<close> at \<open>(0, 0)\<close> of size \<open>10 \<times> 10\<close>, no
  connections, the identity transform, the container at the origin of the screen, and
  a drag from \<open>(-5, -5)\<close> to \<open>(15, 15)\<close> in always-on mode.
\<close>

definition node_a :: node where
  "node_a = \<lparr> item_id = ''a'', selected = False,
              position = \<lparr> x = 0, y = 0 \<rparr>, dimensions = Some (10, 10) \<rparr>"

definition store0 :: ReactFlowState where
  "store0 =
     \<lparr> userSelectionActive = False, nodesSelectionActive = False, elementsSelectable = True,
       nodeInternals = [(''a'', node_a)], edges = [],
       transform = \<lparr> translateX = 0, translateY = 0, zoom = 1 \<rparr>,
       onNodesChange = True, onEdgesChange = True \<rparr>"

definition container0 :: DOMRect where
  "container0 = \<lparr> bounds_left = 0, bounds_top = 0 \<rparr>"

definition props0 :: UserSelectionProps where
  "props0 = \<lparr> selectionKeyPressed = False, selectionKeyCode = Boolean True, onClick = False \<rparr>"

definition press0 :: MouseEvent where
  "press0 = \<lparr> clientX = -5, clientY = -5, closest_react_flow = Some container0 \<rparr>"

definition move0 :: MouseEvent where
  "move0 = \<lparr> clientX = 15, clientY = 15, closest_react_flow = Some container0 \<rparr>"

text \<open>Hooks and store after the press, and after the press and the move.\<close>

definition pressed0 :: "UserSelection \<times> ReactFlowState" where
  "pressed0 =
     (\<lparr> prevSelectedNodesCount = 0, prevSelectedEdgesCount = 0,
        containerBounds = Some container0,
        userSelectionRect = \<lparr> x = -5, y = -5, width = 0, height = 0,
                              startX = -5, startY = -5, draw = True \<rparr> \<rparr>,
      store0\<lparr> userSelectionActive := True \<rparr>)"

definition dragged0 :: "UserSelection \<times> ReactFlowState" where
  "dragged0 =
     (\<lparr> prevSelectedNodesCount = 1, prevSelectedEdgesCount = 0,
        containerBounds = Some container0,
        userSelectionRect = \<lparr> x = -5, y = -5, width = 20, height = 20,
                              startX = -5, startY = -5, draw = True \<rparr> \<rparr>,
      store0\<lparr> userSelectionActive := True \<rparr>)"

subsection \<open>Further inputs\<close>

text \<open>
  A second element \<open>b\<close> up and to the left of the anchor, the store after its owner has
  applied the change that selects \<open>a\<close>, moves into the other quadrants, and props of
  the key-gated mode with the key released. An edge \<open>e\<close> joins \<open>a\<close> and \<open>b\<close>.
\<close>

definition node_b :: node where
  "node_b = \<lparr> item_id = ''b'', selected = False,
              position = \<lparr> x = -18, y = -18 \<rparr>, dimensions = Some (5, 5) \<rparr>"

definition edge_ab :: edge where
  "edge_ab = \<lparr> item_id = ''e'', selected = False, source = ''a'', target = ''b'' \<rparr>"

definition store_ab :: ReactFlowState where
  "store_ab = store0\<lparr> userSelectionActive := True,
                       nodeInternals := [(''a'', node_a), (''b'', node_b)],
                       edges := [edge_ab] \<rparr>"

definition store_ab_selected :: ReactFlowState where
  "store_ab_selected =
     store0\<lparr> userSelectionActive := True,
             nodeInternals := [(''a'', node_a\<lparr> selected := True \<rparr>), (''b'', node_b)],
             edges := [edge_ab\<lparr> selected := True \<rparr>] \<rparr>"

text \<open>The hooks after the press and the move to \<open>(15, 15)\<close> over \<open>store_ab\<close>.\<close>

definition dragged_ab :: UserSelection where
  "dragged_ab =
     \<lparr> prevSelectedNodesCount = 1, prevSelectedEdgesCount = 1,
       containerBounds = Some container0,
       userSelectionRect = \<lparr> x = -5, y = -5, width = 20, height = 20,
                             startX = -5, startY = -5, draw = True \<rparr> \<rparr>"

definition move_back :: MouseEvent where
  "move_back = \<lparr> clientX = -20, clientY = -20, closest_react_flow = Some container0 \<rparr>"

definition move_up_right :: MouseEvent where
  "move_up_right = \<lparr> clientX = 10, clientY = -20, closest_react_flow = Some container0 \<rparr>"

definition props_key :: UserSelectionProps where
  "props_key =
     \<lparr> selectionKeyPressed = False, selectionKeyCode = KeyCode ''Shift'', onClick = False \<rparr>"

section \<open>Properties\<close>

subsection \<open>Unfolding\<close>

lemmas handler_defs =
  onMouseDown_def onMouseMove_def onMouseMove_returns_def onMouseUp_def onMouseLeave_def
  resetUserSelection_def getMousePosition_def nextUserSelectRect_def
  nodesBlock_def edgesBlock_def selectedNodeIds_def selectedEdgeIds_def selectedNodes_def
  initialUserSelection_def initialRect_def Rect.truncate_def Let_def

lemmas spec_defs =
  spec_utils_def elementsInside_def insideRect_def toCanvasRect_def
  connectedConnections_def computeSelectionChanges_def

lemmas input_defs =
  node_a_def node_b_def edge_ab_def dragged_ab_def store0_def store_ab_def
  store_ab_selected_def container0_def props0_def props_key_def press0_def move0_def
  move_back_def move_up_right_def pressed0_def dragged0_def

subsection \<open>The example run\<close>

text \<open>
  The states \<open>pressed0\<close> and \<open>dragged0\<close> are what the component reaches from its initial
  state by the press and by the press and the move, in either mode of the hit test:
  the rectangle of the move contains the whole of \<open>a\<close>.
\<close>

lemma run_press0: "run (spec_utils m) store0 [MouseDown props0 press0] = pressed0"
  by (simp add: run_def handler_defs input_defs)

lemma run_drag0:
  "run (spec_utils m) store0 [MouseDown props0 press0, MouseMove props0 move0] = dragged0"
  by (cases m) (simp_all add: run_def handler_defs spec_defs input_defs)

subsection \<open>The two blocks and the two paths of \<open>onMouseMove\<close>\<close>

lemma nodesBlock_fields:
  "prevSelectedNodesCount (fst (nodesBlock u s ids c)) = length ids"
  "prevSelectedEdgesCount (fst (nodesBlock u s ids c)) = prevSelectedEdgesCount c"
  "containerBounds (fst (nodesBlock u s ids c)) = containerBounds c"
  "userSelectionRect (fst (nodesBlock u s ids c)) = userSelectionRect c"
  by (simp_all add: nodesBlock_def Let_def)

lemma edgesBlock_fields:
  "prevSelectedEdgesCount (fst (edgesBlock u s ids c)) = length ids"
  "prevSelectedNodesCount (fst (edgesBlock u s ids c)) = prevSelectedNodesCount c"
  "containerBounds (fst (edgesBlock u s ids c)) = containerBounds c"
  "userSelectionRect (fst (edgesBlock u s ids c)) = userSelectionRect c"
  by (simp_all add: edgesBlock_def Let_def)

lemma nodesBlock_same_count:
  "prevSelectedNodesCount c = length ids \<Longrightarrow> nodesBlock u s ids c = (c, [])"
  by (simp add: nodesBlock_def)

lemma edgesBlock_same_count:
  "prevSelectedEdgesCount c = length ids \<Longrightarrow> edgesBlock u s ids c = (c, [])"
  by (simp add: edgesBlock_def)

lemma onMouseMove_returned:
  "onMouseMove_returns p c \<Longrightarrow> onMouseMove u p c s event = (c, s, [])"
  by (simp add: onMouseMove_def)

lemma onMouseMove_processed:
  assumes "\<not> onMouseMove_returns p c" and "containerBounds c = Some b"
  shows "onMouseMove u p c s event =
    ((fst (edgesBlock u s (selectedEdgeIds u c s event b)
        (fst (nodesBlock u s (selectedNodeIds u c s event b) c))))
       \<lparr> userSelectionRect :=
           nextUserSelectRect (userSelectionRect c) (getMousePosition event b) \<rparr>,
     s,
     snd (nodesBlock u s (selectedNodeIds u c s event b) c)
       @ snd (edgesBlock u s (selectedEdgeIds u c s event b)
           (fst (nodesBlock u s (selectedNodeIds u c s event b) c))))"
  using assms by (simp add: onMouseMove_def Let_def split_beta)

lemma not_returns_bounds:
  "\<not> onMouseMove_returns p c \<Longrightarrow> \<exists>b. containerBounds c = Some b"
  by (auto simp: onMouseMove_returns_def split: if_splits)


lemma processed_iff:
  "(\<not> onMouseMove_returns p c) =
     (draw (userSelectionRect c) \<and> containerBounds c \<noteq> None
        \<and> (typeof_boolean (selectionKeyCode p) \<or> selectionKeyPressed p))"
  by (auto simp: onMouseMove_returns_def)

lemma selectedNodes_nodes_upd [simp]:
  "selectedNodes (u\<lparr>getSelectionChanges_nodes := g\<rparr>) = selectedNodes u"
  "selectedNodes (u\<lparr>getSelectionChanges_edges := g'\<rparr>) = selectedNodes u"
  by (simp_all add: selectedNodes_def fun_eq_iff)

lemma selectedIds_upd [simp]:
  "selectedNodeIds (u\<lparr>getSelectionChanges_nodes := g\<rparr>) = selectedNodeIds u"
  "selectedNodeIds (u\<lparr>getSelectionChanges_edges := g'\<rparr>) = selectedNodeIds u"
  "selectedEdgeIds (u\<lparr>getSelectionChanges_nodes := g\<rparr>) = selectedEdgeIds u"
  "selectedEdgeIds (u\<lparr>getSelectionChanges_edges := g'\<rparr>) = selectedEdgeIds u"
  by (simp_all add: selectedNodeIds_def selectedEdgeIds_def fun_eq_iff)

lemma blocks_upd [simp]:
  "nodesBlock (u\<lparr>getSelectionChanges_edges := g'\<rparr>) = nodesBlock u"
  "edgesBlock (u\<lparr>getSelectionChanges_nodes := g\<rparr>) = edgesBlock u"
  by (simp_all add: nodesBlock_def edgesBlock_def fun_eq_iff)

lemma nodesBlock_no_edges: "filter isEdgesChange (snd (nodesBlock u s ids c)) = []"
  by (simp add: nodesBlock_def Let_def)

lemma edgesBlock_no_nodes: "filter isNodesChange (snd (edgesBlock u s ids c)) = []"
  by (simp add: edgesBlock_def Let_def)

lemma processed_counts:
  assumes "\<not> onMouseMove_returns p c" and "containerBounds c = Some b"
  shows "prevSelectedNodesCount (fst (onMouseMove u p c s event))
           = length (selectedNodeIds u c s event b)"
    and "prevSelectedEdgesCount (fst (onMouseMove u p c s event))
           = length (selectedEdgeIds u c s event b)"
    and "containerBounds (fst (onMouseMove u p c s event)) = Some b"
  using assms by (simp_all add: onMouseMove_processed nodesBlock_fields edgesBlock_fields)

lemma same_node_count:
  assumes "containerBounds c = Some b"
    and "prevSelectedNodesCount c = length (selectedNodeIds u c s event b)"
  shows "filter isNodesChange (snd (snd (onMouseMove u p c s event))) = []"
    and "onMouseMove (u\<lparr>getSelectionChanges_nodes := g\<rparr>) p c s event = onMouseMove u p c s event"
proof -
  show "filter isNodesChange (snd (snd (onMouseMove u p c s event))) = []"
  proof (cases "onMouseMove_returns p c")
    case True
    then show ?thesis by (simp add: onMouseMove_returned)
  next
    case False
    with assms show ?thesis
      by (simp add: onMouseMove_processed nodesBlock_same_count edgesBlock_no_nodes)
  qed
  show "onMouseMove (u\<lparr>getSelectionChanges_nodes := g\<rparr>) p c s event = onMouseMove u p c s event"
  proof (cases "onMouseMove_returns p c")
    case True
    then show ?thesis by (simp add: onMouseMove_returned)
  next
    case False
    with assms show ?thesis
      by (simp add: onMouseMove_processed nodesBlock_same_count)
  qed
qed

lemma same_edge_count:
  assumes "containerBounds c = Some b"
    and "prevSelectedEdgesCount c = length (selectedEdgeIds u c s event b)"
  shows "filter isEdgesChange (snd (snd (onMouseMove u p c s event))) = []"
    and "onMouseMove (u\<lparr>getSelectionChanges_edges := g\<rparr>) p c s event = onMouseMove u p c s event"
proof -
  have e: "edgesBlock u' s (selectedEdgeIds u c s event b) c' = (c', [])"
    if "prevSelectedEdgesCount c' = prevSelectedEdgesCount c" for u' c'
    using that assms(2) by (simp add: edgesBlock_same_count)
  show "filter isEdgesChange (snd (snd (onMouseMove u p c s event))) = []"
  proof (cases "onMouseMove_returns p c")
    case True
    then show ?thesis by (simp add: onMouseMove_returned)
  next
    case False
    with assms show ?thesis
      by (simp add: onMouseMove_processed e nodesBlock_fields nodesBlock_no_edges)
  qed
  show "onMouseMove (u\<lparr>getSelectionChanges_edges := g\<rparr>) p c s event = onMouseMove u p c s event"
  proof (cases "onMouseMove_returns p c")
    case True
    then show ?thesis by (simp add: onMouseMove_returned)
  next
    case False
    with assms show ?thesis
      by (simp add: onMouseMove_processed e nodesBlock_fields)
  qed
qed

subsection \<open>Pointer-press\<close>

text \<open>
  Claim C9. Every pointer-press that finds its container (the event's target has a
  \<^verbatim>\<open>.react-flow\<close> ancestor, which the source asserts with \<^verbatim>\<open>!\<close>) returns normally,
  and in the one \<^verbatim>\<open>setState\<close> call of the transition it sets the selection-active
  flag of the store to true and the nodes-selection-active flag to false, whatever
  the flags were before; the rectangle is then in drawing state.
\<close>

theorem onMouseDown_flags:
  assumes "closest_react_flow event = Some b"
  shows "\<exists>c' s' effs. onMouseDown p c s event = Inr (c', s', effs)
           \<and> userSelectionActive s' \<and> \<not> nodesSelectionActive s'
           \<and> draw (userSelectionRect c')"
  using assms by (simp add: onMouseDown_def Let_def)

text \<open>A press on a store whose nodes-selection-active flag was left true.\<close>

theorem onMouseDown_flags_witness:
  "closest_react_flow press0 = Some container0
   \<and> nodesSelectionActive (store0\<lparr> nodesSelectionActive := True \<rparr>)
   \<and> (\<exists>c' s' effs.
        onMouseDown props0 initialUserSelection (store0\<lparr> nodesSelectionActive := True \<rparr>) press0
          = Inr (c', s', effs)
        \<and> userSelectionActive s' \<and> \<not> nodesSelectionActive s' \<and> draw (userSelectionRect c'))"
proof -
  have h: "closest_react_flow press0 = Some container0"
    by (simp add: press0_def)
  show ?thesis
    using h onMouseDown_flags [OF h, of props0 initialUserSelection
        "store0\<lparr> nodesSelectionActive := True \<rparr>"]
    by simp
qed

subsection \<open>Pointer-move\<close>

text \<open>
  Claim C5. A pointer-move is a no-op when the container bounds were never captured, or
  the rectangle is not in drawing state, or, in key-gated mode (the key code is not a
  boolean), the gating key is not held: hooks and store are returned as they were, no
  change batch is emitted, and since the result is the same for every \<open>u\<close> no helper is
  run, so no selection is computed and no diff is taken.
\<close>

theorem onMouseMove_ignored:
  assumes "containerBounds c = None \<or> \<not> draw (userSelectionRect c)
           \<or> (\<not> typeof_boolean (selectionKeyCode p) \<and> \<not> selectionKeyPressed p)"
  shows "onMouseMove u p c s event = (c, s, [])"
proof -
  from assms have "onMouseMove_returns p c"
    by (auto simp: onMouseMove_returns_def)
  then show ?thesis by (rule onMouseMove_returned)
qed

text \<open>Key-gated mode, key released, in the middle of a drag; the helpers in either mode.\<close>

theorem onMouseMove_ignored_witness:
  "\<forall>m. \<not> typeof_boolean (selectionKeyCode props_key) \<and> \<not> selectionKeyPressed props_key
     \<and> draw (userSelectionRect (fst dragged0))
     \<and> onMouseMove (spec_utils m) props_key (fst dragged0) (snd dragged0) move_back
          = (fst dragged0, snd dragged0, [])"
proof
  fix m
  have h: "\<not> typeof_boolean (selectionKeyCode props_key) \<and> \<not> selectionKeyPressed props_key"
    by (simp add: props_key_def)
  then have "containerBounds (fst dragged0) = None \<or> \<not> draw (userSelectionRect (fst dragged0))
           \<or> (\<not> typeof_boolean (selectionKeyCode props_key) \<and> \<not> selectionKeyPressed props_key)"
    by simp
  from onMouseMove_ignored [OF this, of "spec_utils m" "snd dragged0" move_back] h
  show "\<not> typeof_boolean (selectionKeyCode props_key) \<and> \<not> selectionKeyPressed props_key
     \<and> draw (userSelectionRect (fst dragged0))
     \<and> onMouseMove (spec_utils m) props_key (fst dragged0) (snd dragged0) move_back
          = (fst dragged0, snd dragged0, [])"
    by (simp add: dragged0_def)
qed

text \<open>
  Claim C4. For every pointer-move that is processed (the rectangle is in drawing state,
  the bounds \<open>b\<close> are cached, and the mode is always-on or the key is held), with the
  anchor \<open>(startX, startY)\<close> of the current rectangle and the current point
  \<open>getMousePosition event b\<close>, the new rectangle has \<open>x = min startX currentX\<close>,
  \<open>y = min startY currentY\<close>, \<open>width = \<bar>currentX - startX\<bar>\<close>,
  \<open>height = \<bar>currentY - startY\<bar>\<close>, in every direction of the drag, and its
  \<open>startX\<close> and \<open>startY\<close> are those of the rectangle before the move.
\<close>

theorem onMouseMove_rectangle:
  assumes "draw (userSelectionRect c)" and "containerBounds c = Some b"
    and "typeof_boolean (selectionKeyCode p) \<or> selectionKeyPressed p"
  shows "x (userSelectionRect (fst (onMouseMove u p c s event)))
           = min (startX (userSelectionRect c)) (x (getMousePosition event b))
       \<and> y (userSelectionRect (fst (onMouseMove u p c s event)))
           = min (startY (userSelectionRect c)) (y (getMousePosition event b))
       \<and> width (userSelectionRect (fst (onMouseMove u p c s event)))
           = \<bar>x (getMousePosition event b) - startX (userSelectionRect c)\<bar>
       \<and> height (userSelectionRect (fst (onMouseMove u p c s event)))
           = \<bar>y (getMousePosition event b) - startY (userSelectionRect c)\<bar>
       \<and> startX (userSelectionRect (fst (onMouseMove u p c s event)))
           = startX (userSelectionRect c)
       \<and> startY (userSelectionRect (fst (onMouseMove u p c s event)))
           = startY (userSelectionRect c)"
proof -
  from assms have "\<not> onMouseMove_returns p c"
    by (simp add: processed_iff)
  with assms(2) show ?thesis
    by (simp add: onMouseMove_processed nextUserSelectRect_def Let_def min_def)
qed

text \<open>
  A drag up and to the right: from the anchor \<open>(-5, -5)\<close> to \<open>(10, -20)\<close>; the helpers in
  either mode.
\<close>

theorem onMouseMove_rectangle_witness:
  "\<forall>m.
     x (userSelectionRect (fst (onMouseMove (spec_utils m) props0 (fst pressed0) (snd pressed0) move_up_right))) = -5
   \<and> y (userSelectionRect (fst (onMouseMove (spec_utils m) props0 (fst pressed0) (snd pressed0) move_up_right))) = -20
   \<and> width (userSelectionRect (fst (onMouseMove (spec_utils m) props0 (fst pressed0) (snd pressed0) move_up_right))) = 15
   \<and> height (userSelectionRect (fst (onMouseMove (spec_utils m) props0 (fst pressed0) (snd pressed0) move_up_right))) = 15
   \<and> startX (userSelectionRect (fst (onMouseMove (spec_utils m) props0 (fst pressed0) (snd pressed0) move_up_right))) = -5
   \<and> startY (userSelectionRect (fst (onMouseMove (spec_utils m) props0 (fst pressed0) (snd pressed0) move_up_right))) = -5"
proof
  fix m
  have h1: "draw (userSelectionRect (fst pressed0))"
    and h2: "containerBounds (fst pressed0) = Some container0"
    and h3: "typeof_boolean (selectionKeyCode props0) \<or> selectionKeyPressed props0"
    by (simp_all add: pressed0_def props0_def)
  from onMouseMove_rectangle [OF h1 h2 h3, of "spec_utils m" "snd pressed0" move_up_right]
  show "x (userSelectionRect (fst (onMouseMove (spec_utils m) props0 (fst pressed0) (snd pressed0) move_up_right))) = -5
   \<and> y (userSelectionRect (fst (onMouseMove (spec_utils m) props0 (fst pressed0) (snd pressed0) move_up_right))) = -20
   \<and> width (userSelectionRect (fst (onMouseMove (spec_utils m) props0 (fst pressed0) (snd pressed0) move_up_right))) = 15
   \<and> height (userSelectionRect (fst (onMouseMove (spec_utils m) props0 (fst pressed0) (snd pressed0) move_up_right))) = 15
   \<and> startX (userSelectionRect (fst (onMouseMove (spec_utils m) props0 (fst pressed0) (snd pressed0) move_up_right))) = -5
   \<and> startY (userSelectionRect (fst (onMouseMove (spec_utils m) props0 (fst pressed0) (snd pressed0) move_up_right))) = -5"
    by (simp add: pressed0_def getMousePosition_def move_up_right_def container0_def)
qed

text \<open>
  Claim C10. A pointer-move never writes the store: the store it returns is the store it
  was given, so the selection-active and the nodes-selection-active flags are
  unchanged, and every effect of a move is a batch of node changes or a batch of edge
  changes.
\<close>

theorem onMouseMove_frame:
  "fst (snd (onMouseMove u p c s event)) = s
   \<and> userSelectionActive (fst (snd (onMouseMove u p c s event))) = userSelectionActive s
   \<and> nodesSelectionActive (fst (snd (onMouseMove u p c s event))) = nodesSelectionActive s
   \<and> list_all isChangeBatch (snd (snd (onMouseMove u p c s event)))"
proof (cases "onMouseMove_returns p c")
  case True
  then show ?thesis by (simp add: onMouseMove_returned)
next
  case False
  then obtain b where b: "containerBounds c = Some b"
    using not_returns_bounds by blast
  have "list_all isChangeBatch (snd (nodesBlock u s ids c'))" for ids c'
    by (simp add: nodesBlock_def Let_def)
  moreover have "list_all isChangeBatch (snd (edgesBlock u s ids c'))" for ids c'
    by (simp add: edgesBlock_def Let_def)
  ultimately show ?thesis
    using False b by (simp add: onMouseMove_processed)
qed

text \<open>
  The first move of the example drag emits one batch, which selects \<open>a\<close>, in either mode
  of the hit test.
\<close>

theorem onMouseMove_frame_witness:
  "\<forall>m. snd (onMouseMove (spec_utils m) props0 (fst pressed0) (snd pressed0) move0)
          = (snd pressed0, [NodesChange [(''a'', True)]])"
proof
  fix m
  from onMouseMove_frame [of "spec_utils m" props0 "fst pressed0" "snd pressed0" move0]
  show "snd (onMouseMove (spec_utils m) props0 (fst pressed0) (snd pressed0) move0)
          = (snd pressed0, [NodesChange [(''a'', True)]])"
    by (cases m) (simp_all add: handler_defs spec_defs input_defs)
qed

text \<open>
  Claim C3. Take two consecutive pointer-moves, the first of them processed from any
  state \<open>c\<close> in drawing state (so the two may stand anywhere in a sequence of moves);
  between them the owner of the store may have changed it (\<open>s\<close> and \<open>s'\<close> are
  unrelated), and the props may differ. If the number of selected node ids of the
  second tick equals that of the first, the second tick emits no batch of node
  changes, and its whole result does not depend on the function that computes the
  node diff: the diff is not computed. The same holds for the edge ids, the batch of
  edge changes and the edge diff. Nothing is assumed about the members of the two
  selections.
\<close>

theorem unchanged_count_no_diff:
  assumes "draw (userSelectionRect c)" and "containerBounds c = Some b"
    and "typeof_boolean (selectionKeyCode p) \<or> selectionKeyPressed p"
    and "c' = fst (onMouseMove u p c s event)"
  shows "(length (selectedNodeIds u c' s' event' b) = length (selectedNodeIds u c s event b) \<longrightarrow>
            filter isNodesChange (snd (snd (onMouseMove u p' c' s' event'))) = []
            \<and> onMouseMove (u\<lparr>getSelectionChanges_nodes := g\<rparr>) p' c' s' event'
                = onMouseMove u p' c' s' event')
       \<and> (length (selectedEdgeIds u c' s' event' b) = length (selectedEdgeIds u c s event b) \<longrightarrow>
            filter isEdgesChange (snd (snd (onMouseMove u p' c' s' event'))) = []
            \<and> onMouseMove (u\<lparr>getSelectionChanges_edges := h\<rparr>) p' c' s' event'
                = onMouseMove u p' c' s' event')"
proof -
  from assms have first: "\<not> onMouseMove_returns p c"
    by (simp add: processed_iff)
  note counts = processed_counts [OF first assms(2), of u s event, folded assms(4)]
  have bounds: "containerBounds c' = Some b"
    by (rule counts(3))
  show ?thesis
  proof (intro conjI impI)
    assume "length (selectedNodeIds u c' s' event' b) = length (selectedNodeIds u c s event b)"
    with counts(1) have same: "prevSelectedNodesCount c' = length (selectedNodeIds u c' s' event' b)"
      by simp
    show "filter isNodesChange (snd (snd (onMouseMove u p' c' s' event'))) = []"
      by (rule same_node_count(1) [OF bounds same])
    show "onMouseMove (u\<lparr>getSelectionChanges_nodes := g\<rparr>) p' c' s' event'
            = onMouseMove u p' c' s' event'"
      by (rule same_node_count(2) [OF bounds same])
  next
    assume "length (selectedEdgeIds u c' s' event' b) = length (selectedEdgeIds u c s event b)"
    with counts(2) have same: "prevSelectedEdgesCount c' = length (selectedEdgeIds u c' s' event' b)"
      by simp
    show "filter isEdgesChange (snd (snd (onMouseMove u p' c' s' event'))) = []"
      by (rule same_edge_count(1) [OF bounds same])
    show "onMouseMove (u\<lparr>getSelectionChanges_edges := h\<rparr>) p' c' s' event'
            = onMouseMove u p' c' s' event'"
      by (rule same_edge_count(2) [OF bounds same])
  qed
qed

text \<open>
  The first tick selects \<open>a\<close>, the second \<open>b\<close> instead: one node in both, one edge in
  both. The store holds \<open>a\<close> as selected by then, so a diff of the nodes would give two
  changes; the second tick emits nothing. Both rectangles contain the whole of the
  element they select, so this is the same in either mode of the hit test.
\<close>

theorem unchanged_count_no_diff_witness:
  "\<forall>m.
     selectedNodeIds (spec_utils m) (fst pressed0) store_ab move0 container0 = [''a'']
   \<and> selectedNodeIds (spec_utils m) dragged_ab store_ab_selected move_back container0 = [''b'']
   \<and> computeSelectionChanges (map snd (nodeInternals store_ab_selected)) [''b'']
        = [(''a'', False), (''b'', True)]
   \<and> onMouseMove (spec_utils m) props0 dragged_ab store_ab_selected move_back
        = (dragged_ab\<lparr> userSelectionRect := (userSelectionRect dragged_ab)
              \<lparr> x := -20, y := -20, width := 15, height := 15 \<rparr> \<rparr>, store_ab_selected, [])
   \<and> onMouseMove ((spec_utils m)\<lparr> getSelectionChanges_nodes := \<lambda>nodes ids. [(''a'', False)] \<rparr>)
          props0 dragged_ab store_ab_selected move_back
        = onMouseMove (spec_utils m) props0 dragged_ab store_ab_selected move_back
   \<and> onMouseMove ((spec_utils m)\<lparr> getSelectionChanges_edges := \<lambda>es ids. [(''e'', False)] \<rparr>)
          props0 dragged_ab store_ab_selected move_back
        = onMouseMove (spec_utils m) props0 dragged_ab store_ab_selected move_back"
proof
  fix m
  have h1: "draw (userSelectionRect (fst pressed0))"
    and h2: "containerBounds (fst pressed0) = Some container0"
    and h3: "typeof_boolean (selectionKeyCode props0) \<or> selectionKeyPressed props0"
    by (simp_all add: pressed0_def props0_def)
  have h4: "dragged_ab = fst (onMouseMove (spec_utils m) props0 (fst pressed0) store_ab move0)"
    by (cases m) (simp_all add: handler_defs spec_defs input_defs)
  have n1: "selectedNodeIds (spec_utils m) (fst pressed0) store_ab move0 container0 = [''a'']"
    by (cases m) (simp_all add: handler_defs spec_defs input_defs)
  have n2: "selectedNodeIds (spec_utils m) dragged_ab store_ab_selected move_back container0 = [''b'']"
    by (cases m) (simp_all add: handler_defs spec_defs input_defs)
  have e1: "selectedEdgeIds (spec_utils m) (fst pressed0) store_ab move0 container0 = [''e'']"
    by (cases m) (simp_all add: handler_defs spec_defs input_defs)
  have e2: "selectedEdgeIds (spec_utils m) dragged_ab store_ab_selected move_back container0 = [''e'']"
    by (cases m) (simp_all add: handler_defs spec_defs input_defs)
  have d: "computeSelectionChanges (map snd (nodeInternals store_ab_selected)) [''b'']
             = [(''a'', False), (''b'', True)]"
    by (simp add: spec_defs input_defs)
  have mv: "onMouseMove (spec_utils m) props0 dragged_ab store_ab_selected move_back
        = (dragged_ab\<lparr> userSelectionRect := (userSelectionRect dragged_ab)
              \<lparr> x := -20, y := -20, width := 15, height := 15 \<rparr> \<rparr>, store_ab_selected, [])"
    by (cases m) (simp_all add: handler_defs spec_defs input_defs)
  from unchanged_count_no_diff [OF h1 h2 h3 h4, where s' = store_ab_selected
      and event' = move_back and p' = props0
      and g = "\<lambda>nodes ids. [(''a'', False)]" and h = "\<lambda>es ids. [(''e'', False)]"]
  show "selectedNodeIds (spec_utils m) (fst pressed0) store_ab move0 container0 = [''a'']
   \<and> selectedNodeIds (spec_utils m) dragged_ab store_ab_selected move_back container0 = [''b'']
   \<and> computeSelectionChanges (map snd (nodeInternals store_ab_selected)) [''b'']
        = [(''a'', False), (''b'', True)]
   \<and> onMouseMove (spec_utils m) props0 dragged_ab store_ab_selected move_back
        = (dragged_ab\<lparr> userSelectionRect := (userSelectionRect dragged_ab)
              \<lparr> x := -20, y := -20, width := 15, height := 15 \<rparr> \<rparr>, store_ab_selected, [])
   \<and> onMouseMove ((spec_utils m)\<lparr> getSelectionChanges_nodes := \<lambda>nodes ids. [(''a'', False)] \<rparr>)
          props0 dragged_ab store_ab_selected move_back
        = onMouseMove (spec_utils m) props0 dragged_ab store_ab_selected move_back
   \<and> onMouseMove ((spec_utils m)\<lparr> getSelectionChanges_edges := \<lambda>es ids. [(''e'', False)] \<rparr>)
          props0 dragged_ab store_ab_selected move_back
        = onMouseMove (spec_utils m) props0 dragged_ab store_ab_selected move_back"
    by (simp add: n1 n2 e1 e2 d mv)
qed

subsection \<open>Pointer-release and pointer-leave\<close>

text \<open>
  Claim C6. On pointer-release the nodes-selection-active flag of the store becomes true
  exactly when the recorded count of selected nodes is greater than zero; then the
  rectangle is the initial one (all zero, not drawing), the selection-active flag of
  the store is false and both recorded counts are zero. This holds from every state.
\<close>

theorem onMouseUp_signals_and_resets:
  "nodesSelectionActive (snd (onMouseUp c s)) = (0 < prevSelectedNodesCount c)
   \<and> userSelectionRect (fst (onMouseUp c s)) = initialRect
   \<and> \<not> draw (userSelectionRect (fst (onMouseUp c s)))
   \<and> \<not> userSelectionActive (snd (onMouseUp c s))
   \<and> prevSelectedNodesCount (fst (onMouseUp c s)) = 0
   \<and> prevSelectedEdgesCount (fst (onMouseUp c s)) = 0"
  by (simp add: onMouseUp_def resetUserSelection_def initialRect_def)

text \<open>A release at the end of the example drag, with one node selected.\<close>

theorem onMouseUp_signals_and_resets_witness:
  "nodesSelectionActive (snd (onMouseUp (fst dragged0) (snd dragged0)))
   \<and> 0 < prevSelectedNodesCount (fst dragged0)
   \<and> userSelectionRect (fst (onMouseUp (fst dragged0) (snd dragged0))) = initialRect"
  using onMouseUp_signals_and_resets [of "fst dragged0" "snd dragged0"]
  by (simp add: dragged0_def)

text \<open>
  Claim C1, as stated, fails: pointer-leave writes \<^verbatim>\<open>nodesSelectionActive: false\<close>, not
  the comparison that \<^verbatim>\<open>onMouseUp\<close> writes. At the end of the example drag the
  rectangle is drawing and the recorded count is one, yet the flag is false after the
  pointer has left.
\<close>

theorem onMouseLeave_counterexample:
  "draw (userSelectionRect (fst dragged0))
   \<and> 0 < prevSelectedNodesCount (fst dragged0)
   \<and> \<not> nodesSelectionActive (snd (onMouseLeave (fst dragged0) (snd dragged0)))"
  by (simp add: onMouseLeave_def resetUserSelection_def dragged0_def)

text \<open>
  Claim C1, amended. On pointer-leave the nodes-selection-active flag of the store
  becomes false, whatever the recorded count of selected nodes is, and the rectangle
  is then the initial one (all zero, not drawing).
\<close>

theorem onMouseLeave_clears_and_resets:
  "\<not> nodesSelectionActive (snd (onMouseLeave c s))
   \<and> userSelectionRect (fst (onMouseLeave c s)) = initialRect
   \<and> \<not> draw (userSelectionRect (fst (onMouseLeave c s)))"
  by (simp add: onMouseLeave_def resetUserSelection_def initialRect_def)



subsection \<open>The invariant of the rectangle\<close>

lemma rectInvariant_next: "rectInvariant (nextUserSelectRect r mousePos)"
  by (simp add: rectInvariant_def nextUserSelectRect_def Let_def)

lemma rectInvariant_initialRect: "rectInvariant initialRect"
  by (simp add: rectInvariant_def initialRect_def)

lemma rectInvariant_onMouseMove:
  "rectInvariant (userSelectionRect c) \<Longrightarrow>
   rectInvariant (userSelectionRect (fst (onMouseMove u p c s event)))"
proof (cases "onMouseMove_returns p c")
  case True
  assume "rectInvariant (userSelectionRect c)"
  with True show ?thesis by (simp add: onMouseMove_returned)
next
  case False
  then obtain b where "containerBounds c = Some b"
    using not_returns_bounds by blast
  with False show ?thesis
    by (simp add: onMouseMove_processed rectInvariant_next)
qed

lemma rectInvariant_step:
  "rectInvariant (userSelectionRect (fst cs)) \<Longrightarrow>
   rectInvariant (userSelectionRect (fst (step u cs e)))"
proof (cases cs)
  case (Pair c s)
  assume inv: "rectInvariant (userSelectionRect (fst cs))"
  show ?thesis
  proof (cases e)
    case (MouseDown p event)
    with Pair inv show ?thesis
      by (auto simp: onMouseDown_def rectInvariant_def Let_def split: option.splits)
  next
    case (MouseMove p event)
    with Pair inv rectInvariant_onMouseMove [of c u p s event] show ?thesis
      by (simp add: split_beta)
  next
    case MouseUp
    with Pair show ?thesis
      by (simp add: onMouseUp_def resetUserSelection_def rectInvariant_initialRect)
  next
    case MouseLeave
    with Pair show ?thesis
      by (simp add: onMouseLeave_def resetUserSelection_def rectInvariant_initialRect)
  next
    case (StoreUpdate s')
    with Pair inv show ?thesis by simp
  qed
qed

text \<open>
  Claim C8. In every state the component reaches from its initial state, by any
  sequence of presses, moves, releases, leaves and changes of the store, the
  rectangle has \<open>width \<ge> 0\<close>, \<open>height \<ge> 0\<close>, \<open>x \<le> startX\<close> and \<open>y \<le> startY\<close>.
\<close>

theorem rectInvariant_run:
  "rectInvariant (userSelectionRect (fst (run u s0 events)))"
proof (induction events rule: rev_induct)
  case Nil
  show ?case
    by (simp add: run_def initialUserSelection_def rectInvariant_initialRect)
next
  case (snoc e events)
  then show ?case
    using rectInvariant_step [of "run u s0 events" u e] by (simp add: run_def)
qed

text \<open>The state at the end of the example drag.\<close>

theorem rectInvariant_run_witness:
  "rectInvariant (userSelectionRect (fst dragged0))"
  using rectInvariant_run [of "spec_utils Partial" store0
      "[MouseDown props0 press0, MouseMove props0 move0]"]
  by (simp add: run_drag0)

end
